theory Spec2Isabelle
  imports Complex_Main "HOL-Library.AList"
begin

section \<open>Exceptions and identifiers\<close>

text \<open>
  Every Python exception the modelled functions can raise is a value; a function that
  can raise returns \<open>error + result\<close>, with \<open>Inl\<close> for the exception.

  The three tasks of the EMS share the book and are scheduled cooperatively. Each
  is a loop over a stream; the model gives the body of one iteration as a function
  from the state before it to the state after it and the messages it sends. The
  sends inside a body are suspension points at which the other tasks could run; the
  model takes a body as one step.
\<close>

datatype error =
    KeyError
  | IndexError
  | AttributeError
  | UnboundLocalError
  | ValueError
  | ValidationError
  | ValueDuplicationError
  | TypeError
  | AssertionError
  | ConnectionClosed
  | BrokerError string

type_synonym oid = string
type_synonym sym = string

text \<open>A broker request id is \<open>Union[int, str]\<close>.\<close>

datatype reqid = ReqInt int | ReqStr string

section \<open>\<open>clearing/_ems.py\<close>: predicates\<close>

text \<open>
  \<open>mk_check\<close> returns one of two closures over \<open>trigger_price\<close>, or \<open>None\<close>.
  A closure is the datatype value naming it; \<open>run_check\<close> calls it. Prices are Python
  floats; they are modelled as real numbers, a totally ordered field (no NaN).
\<close>

datatype check = check_gt real | check_lt real

fun run_check :: "check \<Rightarrow> real \<Rightarrow> bool" where
  "run_check (check_gt trigger_price) price = (price \<ge> trigger_price)"
| "run_check (check_lt trigger_price) price = (price \<le> trigger_price)"

definition mk_check :: "real \<Rightarrow> real \<Rightarrow> string \<Rightarrow> check option" where
  "mk_check trigger_price known_last action =
     (if trigger_price \<ge> known_last then Some (check_gt trigger_price)
      else if trigger_price \<le> known_last then Some (check_lt trigger_price)
      else None)"

section \<open>\<open>clearing/_ems.py\<close>: messages\<close>

text \<open>
  The client command is the raw dict \<open>cmd\<close>; \<open>Order(**cmd)\<close> reads the same fields.
  The message classes live in \<open>_messages.py\<close>; their fields are the keyword arguments
  the constructor calls of \<open>_ems.py\<close> pass. Timestamps (\<open>time_ns\<close>) are wall-clock
  readings and are left out of every message.
\<close>

record order_cmd =
  cmd_action :: string
  cmd_oid :: oid
  cmd_symbol :: sym
  cmd_price :: real
  cmd_size :: real
  cmd_brokers :: "string list"
  cmd_exec_mode :: string

record BrokerdOrder =
  bo_action :: string
  bo_oid :: oid
  bo_reqid :: "reqid option"
  bo_symbol :: sym
  bo_price :: real
  bo_size :: real

record BrokerdCancel =
  bc_oid :: oid
  bc_reqid :: "reqid option"

record BrokerdOrderAck =
  ack_reqid :: reqid
  ack_oid :: oid

text \<open>
  What \<open>book._ems_entries\<close> and the local variable \<open>msg\<close> of
  \<open>process_client_order_cmds\<close> can hold.
\<close>

datatype flow_msg =
    Order_msg order_cmd
  | BrokerdOrder_msg BrokerdOrder
  | BrokerdCancel_msg BrokerdCancel
  | BrokerdOrderAck_msg BrokerdOrderAck

text \<open>
  A broker trade event is a dict. \<open>ev_oid = None\<close> is a dict without the key \<open>oid\<close>.
  \<open>ev_broker_details\<close> is \<open>None\<close> for a dict without the key \<open>broker_details\<close>,
  \<open>Some None\<close> when that dict has no (or an empty) \<open>paper_info\<close>, and
  \<open>Some (Some o)\<close> when \<open>paper_info['oid']\<close> is \<open>o\<close>. \<open>ev_external\<close> is the
  truth value of \<open>brokerd_msg.get('external')\<close>.
\<close>

record brokerd_event =
  ev_name :: string
  ev_reqid :: reqid
  ev_oid :: "oid option"
  ev_broker_details :: "oid option option"
  ev_external :: bool
  ev_status :: string
  ev_filled :: real
  ev_remaining :: real
  ev_reason :: string

datatype details =
    no_details
  | name_details string
  | event_details brokerd_event

record Status =
  st_oid :: oid
  st_resp :: "string option"
  st_symbol :: "sym option"
  st_trigger_price :: "real option"
  st_broker_details :: details
  st_cmd :: "order_cmd option"
  st_broker_reqid :: "reqid option"
  st_brokerd_msg :: details

datatype client_msg = Status_msg Status | BrokerdPosition_msg brokerd_event

text \<open>One send: on the stream to the broker daemon, or on the stream to the client.\<close>

datatype out = Brokerd flow_msg | Client client_msg

section \<open>\<open>clearing/_ems.py\<close>: the dark book\<close>

text \<open>
  An entry of \<open>orders[symbol]\<close> is the tuple
  \<open>(pred, tickfilter, cmd, percent_away, abs_diff_away)\<close>. The inner dicts are
  mutated in place and can be reached under two symbols after
  \<open>book.orders[symbol] = execs\<close>, so they live in a store: \<open>orders\<close> maps a symbol to
  the address of its dict and \<open>execs_at\<close> gives the dict at an address, as an
  association list in insertion order. \<open>_ems2brokerd_ids\<close> is a \<open>bidict\<close>.
\<close>

type_synonym entry = "check option \<times> string list \<times> order_cmd \<times> real \<times> real"
type_synonym execs = "(oid \<times> entry) list"

record DarkBook =
  book_broker :: string
  orders :: "sym \<rightharpoonup> nat"
  execs_at :: "nat \<Rightarrow> execs"
  next_execs :: nat
  lasts :: "(string \<times> sym) \<rightharpoonup> real"
  ems_entries :: "oid \<rightharpoonup> flow_msg"
  ems2brokerd_ids :: "(oid \<times> reqid) list"

text \<open>\<open>bidict.inverse.get(v)\<close>: the key whose value is \<open>v\<close>.\<close>

definition inverse_get :: "(oid \<times> reqid) list \<Rightarrow> reqid \<Rightarrow> oid option" where
  "inverse_get ids v = map_of (map (\<lambda>(k, v'). (v', k)) ids) v"

text \<open>
  \<open>bidict[k] = v\<close>: a value already held by another key raises
  \<open>ValueDuplicationError\<close>; an existing key is overwritten.
\<close>

definition bidict_put :: "(oid \<times> reqid) list \<Rightarrow> oid \<Rightarrow> reqid \<Rightarrow> error + (oid \<times> reqid) list" where
  "bidict_put ids k v =
     (if \<exists>(k', v') \<in> set ids. v' = v \<and> k' \<noteq> k then Inl ValueDuplicationError
      else Inr (AList.update k v ids))"

text \<open>\<open>execs.pop(oid)\<close> raises \<open>KeyError\<close> on a missing key.\<close>

definition pop_execs :: "oid \<Rightarrow> execs \<Rightarrow> error + execs" where
  "pop_execs oid execs =
     (if oid \<in> fst ` set execs then Inr (AList.delete oid execs) else Inl KeyError)"

section \<open>\<open>clearing/_ems.py\<close>: \<open>clear_dark_triggers\<close>\<close>

record Tick =
  tick_type :: string
  tick_price :: real

record Quote =
  quote_ticks :: "Tick list"

text \<open>
  Modelled from the spec: \<open>iterticks\<close> of \<open>data/_normalize.py\<close>, which is not among
  the sources. It yields the ticks of \<open>quote.ticks\<close> whose \<open>type\<close> is in \<open>types\<close>,
  in order.
\<close>

definition iterticks :: "Quote \<Rightarrow> string list \<Rightarrow> Tick list" where
  "iterticks quote types = filter (\<lambda>tick. tick_type tick \<in> set types) (quote_ticks quote)"

text \<open>
  Running a loop body over a list, stopping at the first exception. The result of a
  run that raises is the exception alone.
\<close>

fun steps :: "('x \<Rightarrow> 's \<Rightarrow> error + ('s \<times> 'o list)) \<Rightarrow> 'x list \<Rightarrow> 's \<Rightarrow> error + ('s \<times> 'o list)" where
  "steps f [] s = Inr (s, [])"
| "steps f (x # xs) s =
     (case f x s of
        Inl e \<Rightarrow> Inl e
      | Inr (s1, outs1) \<Rightarrow>
          (case steps f xs s1 of
             Inl e \<Rightarrow> Inl e
           | Inr (s2, outs2) \<Rightarrow> Inr (s2, outs1 @ outs2)))"

definition triggered_status :: "oid \<Rightarrow> string \<Rightarrow> sym \<Rightarrow> real \<Rightarrow> string \<Rightarrow> order_cmd \<Rightarrow> Status" where
  "triggered_status oid resp symbol price broker cmd =
     \<lparr>st_oid = oid, st_resp = Some resp, st_symbol = Some symbol,
      st_trigger_price = Some price, st_broker_details = name_details broker,
      st_cmd = Some cmd, st_broker_reqid = None, st_brokerd_msg = no_details\<rparr>"

text \<open>
  The body of the condition scan for an entry that matched (lines 184 to 244): the
  state is the local variable \<open>symbol\<close>, which the body rebinds to \<open>cmd['symbol']\<close>,
  and the book. \<open>ref\<close> is the address of \<open>execs\<close>.
\<close>

definition fire_exec ::
  "string \<Rightarrow> sym \<Rightarrow> nat \<Rightarrow> real \<Rightarrow> oid \<Rightarrow> order_cmd \<Rightarrow> real \<Rightarrow> DarkBook
     \<Rightarrow> error + ((sym \<times> DarkBook) \<times> out list)" where
  "fire_exec broker symb ref price oid cmd abs_diff_away book =
     (let action = cmd_action cmd;
          symbol = cmd_symbol cmd
      in if action = ''alert'' then
           (case pop_execs oid (execs_at book ref) of
              Inl e \<Rightarrow> Inl e
            | Inr execs \<Rightarrow>
                Inr ((symbol, book\<lparr>execs_at := (execs_at book)(ref := execs)\<rparr>),
                     [Client (Status_msg
                        (triggered_status oid ''alert_triggered'' symbol price broker cmd))]))
         else
           (let submit_price = price + abs_diff_away;
                msg = \<lparr>bo_action = cmd_action cmd, bo_oid = oid, bo_reqid = None,
                       bo_symbol = symb, bo_price = submit_price, bo_size = cmd_size cmd\<rparr>;
                book1 = book\<lparr>ems_entries := (ems_entries book)(oid \<mapsto> BrokerdOrder_msg msg)\<rparr>
            in case pop_execs oid (execs_at book1 ref) of
                 Inl e \<Rightarrow> Inl e
               | Inr execs \<Rightarrow>
                   Inr ((symbol, book1\<lparr>execs_at := (execs_at book1)(ref := execs)\<rparr>),
                        [Brokerd (BrokerdOrder_msg msg),
                         Client (Status_msg
                           (triggered_status oid ''dark_triggered'' symbol price broker cmd))])))"

text \<open>
  The condition scan over the snapshot \<open>tuple(execs.items())\<close> (lines 170 to 244).
  An entry is skipped when \<open>not pred or (ttype not in tf) or (not pred(price))\<close>.
\<close>

fun scan_execs ::
  "string \<Rightarrow> sym \<Rightarrow> nat \<Rightarrow> string \<Rightarrow> real \<Rightarrow> (oid \<times> entry) list \<Rightarrow> sym \<times> DarkBook
     \<Rightarrow> error + ((sym \<times> DarkBook) \<times> out list)" where
  "scan_execs broker symb ref ttype price [] st = Inr (st, [])"
| "scan_execs broker symb ref ttype price ((oid, pred, tf, cmd, percent_away, abs_diff_away) # rest)
       (symbol, book) =
     (if (case pred of None \<Rightarrow> True | Some p \<Rightarrow> ttype \<notin> set tf \<or> \<not> run_check p price) then
        scan_execs broker symb ref ttype price rest (symbol, book)
      else
        (case fire_exec broker symb ref price oid cmd abs_diff_away book of
           Inl e \<Rightarrow> Inl e
         | Inr (st1, outs1) \<Rightarrow>
             (case scan_execs broker symb ref ttype price rest st1 of
                Inl e \<Rightarrow> Inl e
              | Inr (st2, outs2) \<Rightarrow> Inr (st2, outs1 @ outs2))))"

text \<open>
  One tick (lines 164 to 249): \<open>lasts\<close> is written under the current value of
  \<open>symbol\<close>, the snapshot is scanned, and the \<open>else\<close> of the \<open>for\<close> (there is no
  \<open>break\<close>) stores \<open>execs\<close> under the possibly rebound \<open>symbol\<close> when it is not
  empty.
\<close>

definition tick_step ::
  "string \<Rightarrow> sym \<Rightarrow> nat \<Rightarrow> Tick \<Rightarrow> sym \<times> DarkBook \<Rightarrow> error + ((sym \<times> DarkBook) \<times> out list)" where
  "tick_step broker symb ref tick st =
     (case st of (symbol, book) \<Rightarrow>
        (let price = tick_price tick;
             ttype = tick_type tick;
             book1 = book\<lparr>lasts := (lasts book)((broker, symbol) \<mapsto> price)\<rparr>
         in case scan_execs broker symb ref ttype price (execs_at book1 ref) (symbol, book1) of
              Inl e \<Rightarrow> Inl e
            | Inr ((symbol1, book2), outs) \<Rightarrow>
                Inr ((symbol1,
                      if execs_at book2 ref \<noteq> []
                      then book2\<lparr>orders := (orders book2)(symbol1 \<mapsto> ref)\<rparr>
                      else book2),
                     outs)))"

text \<open>
  One \<open>(sym, quote)\<close> item of a quotes dict (lines 153 to 249); \<open>symb\<close> stands for the
  source's \<open>sym\<close>.
\<close>

definition quote_step ::
  "string \<Rightarrow> sym \<times> Quote \<Rightarrow> sym \<times> DarkBook \<Rightarrow> error + ((sym \<times> DarkBook) \<times> out list)" where
  "quote_step broker item st =
     (case item of (symb, quote) \<Rightarrow>
        (case orders (snd st) symb of
           None \<Rightarrow> Inr (st, [])
         | Some ref \<Rightarrow>
             steps (tick_step broker symb ref)
               (iterticks quote [''ask'', ''bid'', ''trade'', ''last'']) st))"

text \<open>
  The loop over the quote stream, on a finite prefix of it: each element is one
  quotes dict, as the list of its items. The body of one iteration runs without
  another task in between.
\<close>

definition clear_dark_triggers ::
  "string \<Rightarrow> (sym \<times> Quote) list list \<Rightarrow> sym \<times> DarkBook \<Rightarrow> error + ((sym \<times> DarkBook) \<times> out list)" where
  "clear_dark_triggers broker quote_stream st =
     steps (\<lambda>quotes. steps (quote_step broker) quotes) quote_stream st"

section \<open>\<open>clearing/_ems.py\<close>: \<open>process_client_order_cmds\<close>\<close>

text \<open>
  Modelled from the spec: the attributes of the message classes of \<open>_messages.py\<close>,
  which is not among the sources. An \<open>Order\<close> and a \<open>BrokerdOrder\<close> carry an
  \<open>action\<close>, a \<open>BrokerdCancel\<close> is the message whose action is \<open>cancel\<close>, an ack has
  none; every message has an \<open>oid\<close>; all but \<open>Order\<close> have a \<open>reqid\<close>.
\<close>

fun flow_action :: "flow_msg \<Rightarrow> error + string" where
  "flow_action (Order_msg m) = Inr (cmd_action m)"
| "flow_action (BrokerdOrder_msg m) = Inr (bo_action m)"
| "flow_action (BrokerdCancel_msg m) = Inr ''cancel''"
| "flow_action (BrokerdOrderAck_msg m) = Inl AttributeError"

fun flow_oid :: "flow_msg \<Rightarrow> oid" where
  "flow_oid (Order_msg m) = cmd_oid m"
| "flow_oid (BrokerdOrder_msg m) = bo_oid m"
| "flow_oid (BrokerdCancel_msg m) = bc_oid m"
| "flow_oid (BrokerdOrderAck_msg m) = ack_oid m"

fun flow_reqid :: "flow_msg \<Rightarrow> error + reqid option" where
  "flow_reqid (Order_msg m) = Inl AttributeError"
| "flow_reqid (BrokerdOrder_msg m) = Inr (bo_reqid m)"
| "flow_reqid (BrokerdCancel_msg m) = Inr (bc_reqid m)"
| "flow_reqid (BrokerdOrderAck_msg m) = Inr (Some (ack_reqid m))"

fun set_reqid :: "flow_msg \<Rightarrow> reqid \<Rightarrow> error + flow_msg" where
  "set_reqid (Order_msg m) r = Inl ValueError"
| "set_reqid (BrokerdOrder_msg m) r = Inr (BrokerdOrder_msg (m\<lparr>bo_reqid := Some r\<rparr>))"
| "set_reqid (BrokerdCancel_msg m) r = Inr (BrokerdCancel_msg (m\<lparr>bc_reqid := Some r\<rparr>))"
| "set_reqid (BrokerdOrderAck_msg m) r = Inr (BrokerdOrderAck_msg (m\<lparr>ack_reqid := r\<rparr>))"

definition plain_status :: "oid \<Rightarrow> string \<Rightarrow> Status" where
  "plain_status oid resp =
     \<lparr>st_oid = oid, st_resp = Some resp, st_symbol = None, st_trigger_price = None,
      st_broker_details = no_details, st_cmd = None, st_broker_reqid = None,
      st_brokerd_msg = no_details\<rparr>"

text \<open>
  The \<open>cancel\<close> branch (lines 493 to 533). The state is the local variable \<open>msg\<close>
  (\<open>None\<close> while unbound: it keeps its value from one iteration of the loop to the
  next) and the book. \<open>reqid\<close> is the result of
  \<open>dark_book._ems2brokerd_ids.inverse.get(oid)\<close>, a key of the bidict or \<open>None\<close>;
  \<open>reqid or live_entry.reqid\<close> takes it when it is a non-empty string. Without a live
  entry the branch stores whatever \<open>msg\<close> holds; a missing \<open>orders[symbol]\<close> raises
  \<open>KeyError\<close>, which the \<open>except\<close> clause swallows.
\<close>

definition cancel_cmd ::
  "sym \<Rightarrow> oid \<Rightarrow> oid option \<Rightarrow> flow_msg option \<Rightarrow> flow_msg option \<times> DarkBook
     \<Rightarrow> error + ((flow_msg option \<times> DarkBook) \<times> out list)" where
  "cancel_cmd symbol oid reqid live_entry st =
     (case st of (msg, dark_book) \<Rightarrow>
        (case live_entry of
           Some le \<Rightarrow>
             (case (case reqid of
                      Some r \<Rightarrow> if r \<noteq> [] then Inr (Some (ReqStr r)) else flow_reqid le
                    | None \<Rightarrow> flow_reqid le) of
                Inl e \<Rightarrow> Inl e
              | Inr r \<Rightarrow>
                  (let msg1 = BrokerdCancel_msg \<lparr>bc_oid = oid, bc_reqid = r\<rparr>
                   in Inr ((Some msg1, dark_book), [Brokerd msg1])))
         | None \<Rightarrow>
             (case msg of
                None \<Rightarrow> Inl UnboundLocalError
              | Some m \<Rightarrow>
                  (let book1 = dark_book\<lparr>ems_entries := (ems_entries dark_book)(oid \<mapsto> m)\<rparr>
                   in case orders book1 symbol of
                        None \<Rightarrow> Inr ((msg, book1), [])
                      | Some ref \<Rightarrow>
                          Inr ((msg,
                                book1\<lparr>execs_at :=
                                  (execs_at book1)(ref := AList.delete oid (execs_at book1 ref))\<rparr>),
                               [Client (Status_msg (plain_status oid ''dark_cancelled''))])))))"

text \<open>The tuple stored for a dark order or alert (lines 601 to 636).\<close>

definition dark_entry :: "order_cmd \<Rightarrow> check option \<Rightarrow> real \<Rightarrow> entry" where
  "dark_entry cmd pred min_tick =
     (let action = cmd_action cmd;
          spread_slap = 5
      in if action = ''buy'' then
           (pred, [''ask'', ''last'', ''trade''], cmd, 0.005, spread_slap * min_tick)
         else if action = ''sell'' then
           (pred, [''bid'', ''last'', ''trade''], cmd, - 0.005, - spread_slap * min_tick)
         else
           (pred, [''trade'', ''utrade'', ''last''], cmd, 0, 0))"

text \<open>\<open>dark_book.orders.setdefault(sym, {})[oid] = entry\<close>: a missing symbol gets a new dict.\<close>

definition register_exec :: "sym \<Rightarrow> oid \<Rightarrow> entry \<Rightarrow> DarkBook \<Rightarrow> DarkBook" where
  "register_exec symb oid e dark_book =
     (case orders dark_book symb of
        Some ref \<Rightarrow>
          dark_book\<lparr>execs_at := (execs_at dark_book)(ref := AList.update oid e (execs_at dark_book ref))\<rparr>
      | None \<Rightarrow>
          (let ref = next_execs dark_book
           in dark_book\<lparr>orders := (orders dark_book)(symb \<mapsto> ref),
                        execs_at := (execs_at dark_book)(ref := [(oid, e)]),
                        next_execs := Suc ref\<rparr>))"

text \<open>
  The \<open>alert\<close>, \<open>buy\<close>, \<open>sell\<close> branch (lines 536 to 649). \<open>feed_symbols\<close> gives
  \<open>feed.symbols[sym].tick_size\<close>; \<open>known_last\<close> and \<open>order_size\<close> stand for
  the source's \<open>last\<close> and \<open>size\<close>. In this branch \<open>action in ('alert')\<close>, a substring
  test, is true exactly for \<open>alert\<close>.
\<close>

definition submit_cmd ::
  "(sym \<rightharpoonup> real) \<Rightarrow> order_cmd \<Rightarrow> oid option \<Rightarrow> flow_msg option \<Rightarrow> DarkBook
     \<Rightarrow> error + ((flow_msg option \<times> DarkBook) \<times> out list)" where
  "submit_cmd feed_symbols cmd reqid live_entry dark_book =
     (let action = cmd_action cmd;
          oid = cmd_oid cmd;
          symb = cmd_symbol cmd;
          trigger_price = cmd_price cmd;
          order_size = cmd_size cmd;
          exec_mode = cmd_exec_mode cmd
      in case cmd_brokers cmd of
           [] \<Rightarrow> Inl IndexError
         | broker # _ \<Rightarrow>
             if exec_mode = ''live'' \<and> (action = ''buy'' \<or> action = ''sell'') then
               (case (case live_entry of
                        None \<Rightarrow> Inr None
                      | Some le \<Rightarrow> if flow_oid le = oid then flow_reqid le else Inl AssertionError) of
                  Inl e \<Rightarrow> Inl e
                | Inr _ \<Rightarrow>
                    (let msg = BrokerdOrder_msg
                           \<lparr>bo_action = action, bo_oid = oid, bo_reqid = map_option ReqStr reqid,
                            bo_symbol = symb, bo_price = trigger_price, bo_size = order_size\<rparr>
                     in Inr ((Some msg,
                              dark_book\<lparr>ems_entries := (ems_entries dark_book)(oid \<mapsto> msg)\<rparr>),
                             [Brokerd msg])))
             else if exec_mode = ''dark'' \<or> exec_mode = ''paper'' \<or> action = ''alert'' then
               (case lasts dark_book (broker, symb) of
                  None \<Rightarrow> Inl KeyError
                | Some known_last \<Rightarrow>
                    (let pred = mk_check trigger_price known_last action
                     in case feed_symbols symb of
                          None \<Rightarrow> Inl KeyError
                        | Some min_tick \<Rightarrow>
                            Inr ((Some (Order_msg cmd),
                                  register_exec symb oid (dark_entry cmd pred min_tick) dark_book),
                                 [Client (Status_msg
                                    (plain_status oid
                                       (if action = ''alert'' then ''alert_submitted''
                                        else ''dark_submitted'')))])))
             else Inr ((Some (Order_msg cmd), dark_book), []))"

text \<open>One iteration of the loop over the client's commands (lines 482 to 649).\<close>

definition process_client_order_cmd ::
  "sym \<Rightarrow> (sym \<rightharpoonup> real) \<Rightarrow> order_cmd \<Rightarrow> flow_msg option \<times> DarkBook
     \<Rightarrow> error + ((flow_msg option \<times> DarkBook) \<times> out list)" where
  "process_client_order_cmd symbol feed_symbols cmd st =
     (let action = cmd_action cmd;
          oid = cmd_oid cmd;
          reqid = inverse_get (ems2brokerd_ids (snd st)) (ReqStr oid);
          live_entry = ems_entries (snd st) oid
      in if action = ''cancel'' then cancel_cmd symbol oid reqid live_entry st
         else if action = ''alert'' \<or> action = ''buy'' \<or> action = ''sell'' then
           submit_cmd feed_symbols cmd reqid live_entry (snd st)
         else Inr (st, []))"

definition process_client_order_cmds ::
  "sym \<Rightarrow> (sym \<rightharpoonup> real) \<Rightarrow> order_cmd list \<Rightarrow> flow_msg option \<times> DarkBook
     \<Rightarrow> error + ((flow_msg option \<times> DarkBook) \<times> out list)" where
  "process_client_order_cmds symbol feed_symbols client_order_stream st =
     steps (process_client_order_cmd symbol feed_symbols) client_order_stream st"

section \<open>\<open>clearing/_ems.py\<close>: \<open>translate_and_relay_brokerd_events\<close>\<close>

definition relay_status :: "oid \<Rightarrow> string option \<Rightarrow> reqid \<Rightarrow> details \<Rightarrow> Status" where
  "relay_status oid resp reqid broker_details =
     \<lparr>st_oid = oid, st_resp = resp, st_symbol = None, st_trigger_price = None,
      st_broker_details = no_details, st_cmd = None, st_broker_reqid = Some reqid,
      st_brokerd_msg = broker_details\<rparr>"

text \<open>
  Lines 375 to 467: from the event name to the status relayed. \<open>not msg.remaining\<close>
  holds for the float zero. A \<open>filled\<close> status with a remainder leaves \<open>resp\<close> at
  \<open>None\<close>; the model passes that value on to \<open>Status\<close>.
\<close>

definition relay_event :: "string \<Rightarrow> brokerd_event \<Rightarrow> oid \<Rightarrow> error + out list" where
  "relay_event broker brokerd_msg oid =
     (let name = ev_name brokerd_msg;
          reqid = ev_reqid brokerd_msg
      in if name = ''error'' then Inr []
         else if name = ''status'' then
           (let resp =
                  (if ev_status brokerd_msg = ''filled'' then
                     (if ev_remaining brokerd_msg = 0 then Some ''broker_executed'' else None)
                   else Some (''broker_'' @ ev_status brokerd_msg))
            in Inr [Client (Status_msg (relay_status oid resp reqid (event_details brokerd_msg)))])
         else if name = ''fill'' then
           Inr [Client (Status_msg
                  (relay_status oid (Some ''broker_filled'') reqid (event_details brokerd_msg)))]
         else Inl ValueError)"

text \<open>
  The \<open>ack\<close> branch (lines 341 to 370). \<open>entry.reqid = reqid\<close> changes the message held
  in \<open>_ems_entries[oid]\<close> (messages are values here: the change is not carried over to
  a variable \<open>msg\<close> of the command processor that holds the same object);
  \<open>BrokerdOrderAck(**brokerd_msg)\<close> needs the key \<open>oid\<close>.
\<close>

definition ack_event ::
  "brokerd_event \<Rightarrow> oid \<Rightarrow> reqid \<Rightarrow> flow_msg option \<Rightarrow> DarkBook \<Rightarrow> error + (DarkBook \<times> out list)" where
  "ack_event brokerd_msg oid reqid entry book =
     (case bidict_put (ems2brokerd_ids book) oid reqid of
        Inl e \<Rightarrow> Inl e
      | Inr ids \<Rightarrow>
          (let book1 = book\<lparr>ems2brokerd_ids := ids\<rparr>
           in case entry of
                None \<Rightarrow> Inl AttributeError
              | Some en \<Rightarrow>
                  (case flow_action en of
                     Inl e \<Rightarrow> Inl e
                   | Inr action \<Rightarrow>
                       if action = ''cancel'' then
                         (case set_reqid en reqid of
                            Inl e \<Rightarrow> Inl e
                          | Inr en1 \<Rightarrow>
                              Inr (book1\<lparr>ems_entries := (ems_entries book1)(oid \<mapsto> en1)\<rparr>,
                                   [Brokerd en1]))
                       else
                         (case ev_oid brokerd_msg of
                            None \<Rightarrow> Inl ValidationError
                          | Some msg_oid \<Rightarrow>
                              Inr (book1\<lparr>ems_entries := (ems_entries book1)
                                     (oid \<mapsto> BrokerdOrderAck_msg \<lparr>ack_reqid = reqid, ack_oid = msg_oid\<rparr>)\<rparr>,
                                   [])))))"

text \<open>One iteration of the loop over the broker's trade events (lines 290 to 467).\<close>

definition translate_and_relay_brokerd_event ::
  "string \<Rightarrow> brokerd_event \<Rightarrow> DarkBook \<Rightarrow> error + (DarkBook \<times> out list)" where
  "translate_and_relay_brokerd_event broker brokerd_msg book =
     (let name = ev_name brokerd_msg
      in if name = ''position'' then Inr (book, [Client (BrokerdPosition_msg brokerd_msg)])
         else
           (let reqid = ev_reqid brokerd_msg;
                oid = (case ev_oid brokerd_msg of
                         Some msg_oid \<Rightarrow> Some msg_oid
                       | None \<Rightarrow> inverse_get (ems2brokerd_ids book) reqid)
            in case oid of
                 None \<Rightarrow>
                   (case ev_broker_details brokerd_msg of
                      None \<Rightarrow> Inl KeyError
                    | Some None \<Rightarrow> Inr (book, [])
                    | Some (Some paper_oid) \<Rightarrow>
                        (case relay_event broker brokerd_msg paper_oid of
                           Inl e \<Rightarrow> Inl e
                         | Inr outs \<Rightarrow> Inr (book, outs)))
               | Some oid1 \<Rightarrow>
                   (let entry = ems_entries book oid1
                    in if name = ''ack'' then ack_event brokerd_msg oid1 reqid entry book
                       else
                         (case entry of
                            None \<Rightarrow> Inl AttributeError
                          | Some en \<Rightarrow>
                              (case relay_event broker brokerd_msg (flow_oid en) of
                                 Inl e \<Rightarrow> Inl e
                               | Inr outs \<Rightarrow> Inr (book, outs))))))"

definition translate_and_relay_brokerd_events ::
  "string \<Rightarrow> brokerd_event list \<Rightarrow> DarkBook \<Rightarrow> error + (DarkBook \<times> out list)" where
  "translate_and_relay_brokerd_events broker brokerd_trades_stream book =
     steps (translate_and_relay_brokerd_event broker) brokerd_trades_stream book"

section \<open>\<open>brokers/kraken.py\<close>: \<open>recv_msg\<close>\<close>

text \<open>
  A websocket message is a dict, of which the reader looks at \<open>event\<close> and
  \<open>errorMessage\<close>, or a list \<open>[chan_id, *payload_array, chan_name, pair]\<close>. Payload
  values are taken as numbers already. \<open>recv()\<close> under \<open>trio.move_on_after(1.5)\<close>
  either delivers a message or is cancelled by the timeout; the waiting itself is
  not modelled.
\<close>

datatype ws_msg =
    dict_msg "string option" "string option"
  | list_msg int "real list list" string string

datatype recv_result = Timeout | Received ws_msg

record l1_tick =
  l1_type :: string
  l1_price :: real
  l1_size :: real

datatype feed_item =
    ohlc_item int string string "real list"
  | l1_item string "l1_tick list"

text \<open>\<open>sub in s\<close> for strings.\<close>

fun contains :: "string \<Rightarrow> string \<Rightarrow> bool" where
  "contains sub [] = (sub = [])"
| "contains sub (c # cs) = (take (length sub) (c # cs) = sub \<or> contains sub cs)"

text \<open>
  The part of the loop body after the watchdog (lines 297 to 336): \<open>None\<close> when nothing
  is yielded. \<open>OHLC\<close> takes nine fields after \<open>chan_id, chan_name, pair\<close> and an
  optional tenth.
\<close>

fun handle_msg :: "ws_msg \<Rightarrow> error + feed_item option" where
  "handle_msg (dict_msg event err) =
     (if event = Some ''heartbeat'' then Inr None
      else (case err of
              None \<Rightarrow> Inr None
            | Some e \<Rightarrow> if e \<noteq> [] then Inl (BrokerError e) else Inr None))"
| "handle_msg (list_msg chan_id payload_array chan_name pair) =
     (if contains ''ohlc'' chan_name then
        (case payload_array of
           [] \<Rightarrow> Inl IndexError
         | p # _ \<Rightarrow>
             if length p = 9 \<or> length p = 10 then Inr (Some (ohlc_item chan_id chan_name pair p))
             else Inl TypeError)
      else if contains ''spread'' chan_name then
        (case payload_array of
           [] \<Rightarrow> Inl IndexError
         | p # _ \<Rightarrow>
             (case p of
                [bid, ask, ts, bsize, asize] \<Rightarrow>
                  Inr (Some (l1_item (filter (\<lambda>c. c \<noteq> CHR ''/'') pair)
                     [\<lparr>l1_type = ''bid'', l1_price = bid, l1_size = bsize\<rparr>,
                      \<lparr>l1_type = ''bsize'', l1_price = bid, l1_size = bsize\<rparr>,
                      \<lparr>l1_type = ''ask'', l1_price = ask, l1_size = asize\<rparr>,
                      \<lparr>l1_type = ''asize'', l1_price = ask, l1_size = asize\<rparr>]))
              | _ \<Rightarrow> Inl ValueError))
      else Inr None)"

text \<open>
  One iteration of \<open>while True\<close> (lines 283 to 336). The state is
  \<open>too_slow_count\<close> and the variable \<open>msg\<close>, which a timed-out \<open>recv()\<close> leaves as
  it was (\<open>None\<close> while unbound).
\<close>

definition recv_iter ::
  "recv_result \<Rightarrow> nat \<times> ws_msg option \<Rightarrow> error + ((nat \<times> ws_msg option) \<times> feed_item list)" where
  "recv_iter r st =
     (case st of (too_slow_count, msg) \<Rightarrow>
        (let msg1 = (case r of Received m \<Rightarrow> Some m | Timeout \<Rightarrow> msg);
             cancelled_caught = (r = Timeout);
             too_slow_count1 = (if cancelled_caught then too_slow_count + 1 else too_slow_count)
         in if cancelled_caught \<and> too_slow_count1 > 2 then Inl ConnectionClosed
            else
              (case msg1 of
                 None \<Rightarrow> Inl UnboundLocalError
               | Some m \<Rightarrow>
                   (case handle_msg m of
                      Inl e \<Rightarrow> Inl e
                    | Inr None \<Rightarrow> Inr ((too_slow_count1, msg1), [])
                    | Inr (Some item) \<Rightarrow> Inr ((too_slow_count1, msg1), [item])))))"

text \<open>The reader on a finite sequence of receive outcomes, from \<open>too_slow_count = 0\<close>.\<close>

definition recv_msg :: "recv_result list \<Rightarrow> error + ((nat \<times> ws_msg option) \<times> feed_item list)" where
  "recv_msg recv = steps recv_iter recv (0, None)"

section \<open>\<open>data/feed.py\<close>: the feeds bus\<close>

text \<open>
  \<open>init_msg\<close> maps a symbol to its info dict. A \<open>backend_reply\<close> is what one run of
  \<open>allocate_persistent_feed\<close> obtains from outside: the \<open>(init_msg, first_quote)\<close> that
  \<open>stream_quotes\<close> starts with, the token of the shm array and the sample period read
  from it. In \<open>bus.feeds\<close> the cancel scope, always \<open>bus.nursery.cancel_scope\<close>, is
  left out.
\<close>

record feed_info =
  fi_symbol_info :: string
  fi_shm_token :: "string option"
  fi_sample_rate :: "int option"

type_synonym init_msg = "sym \<rightharpoonup> feed_info"

record backend_reply =
  br_init_msg :: init_msg
  br_first_quote :: Quote
  br_shm_token :: string
  br_delay_s :: int

record FeedsBus =
  bus_brokername :: string
  feeds :: "sym \<rightharpoonup> (init_msg \<times> Quote)"
  subscribers :: "sym \<rightharpoonup> (nat \<times> real option) list"

text \<open>\<open>str.lower()\<close> on ASCII.\<close>

definition lower_char :: "char \<Rightarrow> char" where
  "lower_char c =
     (case map_of (zip ''ABCDEFGHIJKLMNOPQRSTUVWXYZ'' ''abcdefghijklmnopqrstuvwxyz'') c of
        Some l \<Rightarrow> l
      | None \<Rightarrow> c)"

definition lower :: "string \<Rightarrow> string" where
  "lower s = map lower_char s"

text \<open>
  \<open>allocate_persistent_feed\<close> up to \<open>task_status.started\<close> (lines 164 to 229). The
  dict \<open>init_msg\<close> stored in \<open>bus.feeds\<close> is the one that then gets \<open>sample_rate\<close>,
  so the stored entry has it too.
\<close>

definition allocate_persistent_feed ::
  "backend_reply \<Rightarrow> sym \<Rightarrow> FeedsBus \<Rightarrow> error + (FeedsBus \<times> (init_msg \<times> Quote))" where
  "allocate_persistent_feed reply symbol bus =
     (let init_msg = br_init_msg reply;
          first_quote = br_first_quote reply
      in case init_msg symbol of
           None \<Rightarrow> Inl KeyError
         | Some info \<Rightarrow>
             (let init_msg1 = init_msg(symbol \<mapsto>
                    info\<lparr>fi_shm_token := Some (br_shm_token reply),
                         fi_sample_rate := Some (br_delay_s reply)\<rparr>)
              in Inr (bus\<lparr>feeds := (feeds bus)(lower symbol \<mapsto> (init_msg1, first_quote))\<rparr>,
                      (init_msg1, first_quote))))"

text \<open>
  \<open>attach_feed_bus\<close> in the two parts its first suspension point separates. Before
  \<open>async with bus.task_lock\<close> (lines 280 to 282) it reads \<open>bus.feeds.get(symbol)\<close>
  into \<open>entry\<close>. Under the lock (lines 287 to 309) it runs
  \<open>allocate_persistent_feed\<close> when \<open>entry\<close> is \<open>None\<close>, then reads
  \<open>bus.feeds[symbol]\<close> and returns \<open>(init_msg, first_quote)\<close>. The state carries the
  bus and the number of runs of \<open>allocate_persistent_feed\<close> so far; \<open>backend n\<close> is
  what the run numbered \<open>n\<close> obtains.
\<close>

definition attach_lookup :: "sym \<Rightarrow> FeedsBus \<Rightarrow> (init_msg \<times> Quote) option \<times> FeedsBus" where
  "attach_lookup symbol bus =
     (feeds bus symbol,
      (case subscribers bus symbol of
         None \<Rightarrow> bus\<lparr>subscribers := (subscribers bus)(symbol \<mapsto> [])\<rparr>
       | Some _ \<Rightarrow> bus))"

definition attach_locked ::
  "(nat \<Rightarrow> backend_reply) \<Rightarrow> sym \<Rightarrow> (init_msg \<times> Quote) option \<Rightarrow> FeedsBus \<times> nat
     \<Rightarrow> error + ((FeedsBus \<times> nat) \<times> (init_msg \<times> Quote))" where
  "attach_locked backend symbol entry st =
     (case st of (bus, runs) \<Rightarrow>
        (case (case entry of
                 Some _ \<Rightarrow> Inr (bus, runs)
               | None \<Rightarrow>
                   (case allocate_persistent_feed (backend runs) symbol bus of
                      Inl e \<Rightarrow> Inl e
                    | Inr (bus1, started) \<Rightarrow>
                        (case feeds bus1 symbol of
                           None \<Rightarrow> Inl KeyError
                         | Some _ \<Rightarrow> Inr (bus1, Suc runs)))) of
           Inl e \<Rightarrow> Inl e
         | Inr (bus2, runs2) \<Rightarrow>
             (case feeds bus2 symbol of
                None \<Rightarrow> Inl KeyError
              | Some (init_msg, first_quote) \<Rightarrow> Inr ((bus2, runs2), (init_msg, first_quote)))))"

text \<open>One call that runs from start to \<open>ctx.started\<close> with no other task in between.\<close>

definition attach_feed_bus ::
  "(nat \<Rightarrow> backend_reply) \<Rightarrow> sym \<Rightarrow> FeedsBus \<times> nat
     \<Rightarrow> error + ((FeedsBus \<times> nat) \<times> (init_msg \<times> Quote))" where
  "attach_feed_bus backend symbol st =
     (case attach_lookup symbol (fst st) of
        (entry, bus1) \<Rightarrow> attach_locked backend symbol entry (bus1, snd st))"

text \<open>
  Two calls for the same symbol. In turn: the second starts after the first has
  returned. Overlapping: the second call starts while the first is suspended inside
  \<open>bus.nursery.start\<close> with the lock held, reads \<open>entry\<close>, and waits for the lock.
\<close>

definition two_attaches_in_turn ::
  "(nat \<Rightarrow> backend_reply) \<Rightarrow> sym \<Rightarrow> FeedsBus \<times> nat
     \<Rightarrow> error + ((FeedsBus \<times> nat) \<times> ((init_msg \<times> Quote) \<times> (init_msg \<times> Quote)))" where
  "two_attaches_in_turn backend symbol st =
     (case attach_feed_bus backend symbol st of
        Inl e \<Rightarrow> Inl e
      | Inr (st1, first) \<Rightarrow>
          (case attach_feed_bus backend symbol st1 of
             Inl e \<Rightarrow> Inl e
           | Inr (st2, second) \<Rightarrow> Inr (st2, (first, second))))"

definition two_attaches_overlapping ::
  "(nat \<Rightarrow> backend_reply) \<Rightarrow> sym \<Rightarrow> FeedsBus \<times> nat
     \<Rightarrow> error + ((FeedsBus \<times> nat) \<times> ((init_msg \<times> Quote) \<times> (init_msg \<times> Quote)))" where
  "two_attaches_overlapping backend symbol st =
     (case attach_lookup symbol (fst st) of
        (entry_a, bus1) \<Rightarrow>
          (case attach_lookup symbol bus1 of
             (entry_b, bus2) \<Rightarrow>
               (case attach_locked backend symbol entry_a (bus2, snd st) of
                  Inl e \<Rightarrow> Inl e
                | Inr (st1, first) \<Rightarrow>
                    (case attach_locked backend symbol entry_b st1 of
                       Inl e \<Rightarrow> Inl e
                     | Inr (st2, second) \<Rightarrow> Inr (st2, (first, second))))))"

section \<open>Observing the output and the book\<close>

text \<open>The order id a sent message is about.\<close>

fun out_oid :: "out \<Rightarrow> oid option" where
  "out_oid (Brokerd m) = Some (flow_oid m)"
| "out_oid (Client (Status_msg st)) = Some (st_oid st)"
| "out_oid (Client (BrokerdPosition_msg ev)) = None"

text \<open>A \<open>Status\<close> sent to the client for \<open>oid\<close>; a message sent to the broker for \<open>oid\<close>.\<close>

fun status_for :: "oid \<Rightarrow> out \<Rightarrow> bool" where
  "status_for oid (Client (Status_msg st)) = (st_oid st = oid)"
| "status_for oid (Client (BrokerdPosition_msg ev)) = False"
| "status_for oid (Brokerd m) = False"

fun order_for :: "oid \<Rightarrow> out \<Rightarrow> bool" where
  "order_for oid (Brokerd m) = (flow_oid m = oid)"
| "order_for oid (Client c) = False"

text \<open>
  \<open>holds_oid oid ref b\<close> is 1 when the dict at address \<open>ref\<close> has the key \<open>oid\<close>
  and 0 otherwise; \<open>only_at oid ref b\<close> says that no other dict of the store has it.
\<close>

definition holds_oid :: "oid \<Rightarrow> nat \<Rightarrow> DarkBook \<Rightarrow> nat" where
  "holds_oid oid ref b = (if oid \<in> fst ` set (execs_at b ref) then 1 else 0)"

definition only_at :: "oid \<Rightarrow> nat \<Rightarrow> DarkBook \<Rightarrow> bool" where
  "only_at oid ref b = (\<forall>r. r \<noteq> ref \<longrightarrow> oid \<notin> fst ` set (execs_at b r))"



section \<open>Initial state and example inputs\<close>

text \<open>
  The book a session starts from: \<open>_Router.get_dark_book\<close> creates an empty
  \<open>_DarkBook\<close> and \<open>_emsd_main\<close> seeds \<open>lasts[(broker, symbol)]\<close> with the first
  quote's last price.
\<close>

definition seeded_book :: "string \<Rightarrow> sym \<Rightarrow> real \<Rightarrow> DarkBook" where
  "seeded_book broker symbol last_price =
     \<lparr>book_broker = broker, orders = Map.empty, execs_at = (\<lambda>_. []), next_execs = 0,
      lasts = [(broker, symbol) \<mapsto> last_price], ems_entries = Map.empty,
      ems2brokerd_ids = []\<rparr>"

text \<open>The feed of the examples: \<open>aapl\<close> with a tick size of 0.01.\<close>

definition feed_aapl :: "sym \<rightharpoonup> real" where
  "feed_aapl = [''aapl'' \<mapsto> 0.01]"

text \<open>A quote with one trade tick; a quote with a size tick and three ask ticks.\<close>

definition trade_quote :: "real \<Rightarrow> Quote" where
  "trade_quote price = \<lparr>quote_ticks = [\<lparr>tick_type = ''trade'', tick_price = price\<rparr>]\<rparr>"





text \<open>An alert at 100 while the last price is 99, the book holding it, and the book after a trade tick at 100.5.\<close>

definition alert_o3 :: order_cmd where
  "alert_o3 =
     \<lparr>cmd_action = ''alert'', cmd_oid = ''o3'', cmd_symbol = ''aapl'', cmd_price = 100,
      cmd_size = 0, cmd_brokers = [''ib''], cmd_exec_mode = ''dark''\<rparr>"

definition book_with_alert :: DarkBook where
  "book_with_alert =
     register_exec ''aapl'' ''o3'' (dark_entry alert_o3 (mk_check 100 99 ''alert'') 0.01)
       (seeded_book ''ib'' ''aapl'' 99)"

definition alert_fired_book :: DarkBook where
  "alert_fired_book =
     \<lparr>book_broker = ''ib'', orders = [''aapl'' \<mapsto> 0], execs_at = (\<lambda>_. [])(0 := []),
      next_execs = Suc 0, lasts = [(''ib'', ''aapl'') \<mapsto> 100.5], ems_entries = Map.empty,
      ems2brokerd_ids = []\<rparr>"

text \<open>A live sell and its cancel.\<close>

definition live_sell_o2 :: order_cmd where
  "live_sell_o2 =
     \<lparr>cmd_action = ''sell'', cmd_oid = ''o2'', cmd_symbol = ''aapl'', cmd_price = 151,
      cmd_size = 10, cmd_brokers = [''ib''], cmd_exec_mode = ''live''\<rparr>"

definition sell_order_o2 :: BrokerdOrder where
  "sell_order_o2 =
     \<lparr>bo_action = ''sell'', bo_oid = ''o2'', bo_reqid = None, bo_symbol = ''aapl'',
      bo_price = 151, bo_size = 10\<rparr>"

definition cancel_o2 :: order_cmd where
  "cancel_o2 =
     \<lparr>cmd_action = ''cancel'', cmd_oid = ''o2'', cmd_symbol = ''aapl'', cmd_price = 0,
      cmd_size = 0, cmd_brokers = [''ib''], cmd_exec_mode = ''live''\<rparr>"

text \<open>
  A live buy, the broker's ack for it with \<open>reqid\<close> 42, the book after both, a
  cancel for it, and status events as the IB backend sends them (no \<open>oid\<close> key).
\<close>

definition live_buy_o5 :: order_cmd where
  "live_buy_o5 =
     \<lparr>cmd_action = ''buy'', cmd_oid = ''o5'', cmd_symbol = ''aapl'', cmd_price = 149,
      cmd_size = 10, cmd_brokers = [''ib''], cmd_exec_mode = ''live''\<rparr>"

definition ack_event_o5 :: brokerd_event where
  "ack_event_o5 =
     \<lparr>ev_name = ''ack'', ev_reqid = ReqInt 42, ev_oid = Some ''o5'',
      ev_broker_details = Some None, ev_external = False, ev_status = [],
      ev_filled = 0, ev_remaining = 0, ev_reason = []\<rparr>"

definition acked_book :: DarkBook where
  "acked_book =
     (seeded_book ''ib'' ''aapl'' 150)
       \<lparr>ems_entries := [''o5'' \<mapsto> BrokerdOrderAck_msg \<lparr>ack_reqid = ReqInt 42, ack_oid = ''o5''\<rparr>],
        ems2brokerd_ids := [(''o5'', ReqInt 42)]\<rparr>"

definition cancel_o5 :: order_cmd where
  "cancel_o5 =
     \<lparr>cmd_action = ''cancel'', cmd_oid = ''o5'', cmd_symbol = ''aapl'', cmd_price = 0,
      cmd_size = 0, cmd_brokers = [''ib''], cmd_exec_mode = ''live''\<rparr>"

definition status_event :: "reqid \<Rightarrow> string \<Rightarrow> real \<Rightarrow> real \<Rightarrow> brokerd_event" where
  "status_event reqid status filled remaining =
     \<lparr>ev_name = ''status'', ev_reqid = reqid, ev_oid = None,
      ev_broker_details = Some None, ev_external = False, ev_status = status,
      ev_filled = filled, ev_remaining = remaining, ev_reason = []\<rparr>"

text \<open>A heartbeat message of the Kraken websocket.\<close>

definition heartbeat :: ws_msg where
  "heartbeat = dict_msg (Some ''heartbeat'') None"

text \<open>
  An empty feeds bus, and a backend whose run number \<open>n\<close> delivers a first quote
  with last price \<open>100 + n\<close>.
\<close>

definition empty_bus :: "string \<Rightarrow> FeedsBus" where
  "empty_bus brokername =
     \<lparr>bus_brokername = brokername, feeds = Map.empty, subscribers = Map.empty\<rparr>"

definition numbered_backend :: "sym \<Rightarrow> nat \<Rightarrow> backend_reply" where
  "numbered_backend symbol n =
     \<lparr>br_init_msg = [symbol \<mapsto> \<lparr>fi_symbol_info = ''info'', fi_shm_token = None,
                                   fi_sample_rate = None\<rparr>],
      br_first_quote = \<lparr>quote_ticks = [\<lparr>tick_type = ''last'', tick_price = 100 + real n\<rparr>]\<rparr>,
      br_shm_token = ''kraken.xbtusd'', br_delay_s = 60\<rparr>"

section \<open>Properties of \<open>mk_check\<close>\<close>

lemma mk_check_total: "mk_check trigger_price known_last action \<noteq> None"
  by (simp add: mk_check_def)

section \<open>Registering a dark order\<close>








section \<open>The trigger loop: what a scan changes\<close>

lemma steps_append:
  "steps f (xs @ ys) s =
     (case steps f xs s of
        Inl e \<Rightarrow> Inl e
      | Inr (s1, outs1) \<Rightarrow>
          (case steps f ys s1 of
             Inl e \<Rightarrow> Inl e
           | Inr (s2, outs2) \<Rightarrow> Inr (s2, outs1 @ outs2)))"
  by (induction xs arbitrary: s) (auto split: sum.splits)

lemma steps_single: "steps f [x] s = f x s"
  by (auto split: sum.splits)

lemma keys_delete: "fst ` set (AList.delete k al) = fst ` set al - {k}"
  by (induction al) auto

lemma set_delete_subset: "set (AList.delete k al) \<subseteq> set al"
  by (auto simp: AList.delete_eq)

lemma fire_exec_Inr:
  assumes "fire_exec broker symb ref price oid cmd abs_diff_away book = Inr ((s1, b1), outs)"
  shows "oid \<in> fst ` set (execs_at book ref)"
    and "execs_at b1 = (execs_at book)(ref := AList.delete oid (execs_at book ref))"
    and "orders b1 = orders book"
    and "lasts b1 = lasts book"
    and "ems2brokerd_ids b1 = ems2brokerd_ids book"
    and "next_execs b1 = next_execs book"
    and "s1 = cmd_symbol cmd"
    and "\<forall>m \<in> set outs. out_oid m = Some oid"
    and "\<And>k. k \<noteq> oid \<Longrightarrow> ems_entries b1 k = ems_entries book k"
  using assms
  by (auto simp: fire_exec_def Let_def pop_execs_def triggered_status_def split: if_splits)


lemma scan_execs_shrinks:
  assumes "scan_execs broker symb ref ttype price snap (s, b) = Inr ((s1, b1), outs)"
  shows "(\<forall>r. set (execs_at b1 r) \<subseteq> set (execs_at b r))
       \<and> orders b1 = orders b \<and> lasts b1 = lasts b
       \<and> ems2brokerd_ids b1 = ems2brokerd_ids b \<and> next_execs b1 = next_execs b"
  using assms
proof (induction snap arbitrary: s b outs)
  case Nil
  then show ?case by simp
next
  case (Cons x snap)
  obtain oid pred tf cmd pa ada where x: "x = (oid, pred, tf, cmd, pa, ada)"
    by (cases x) auto
  show ?case
  proof (cases "case pred of None \<Rightarrow> True | Some p \<Rightarrow> ttype \<notin> set tf \<or> \<not> run_check p price")
    case True
    with Cons x show ?thesis by simp
  next
    case False
    with Cons.prems x obtain s2 b2 o1 o2 where
      f: "fire_exec broker symb ref price oid cmd ada b = Inr ((s2, b2), o1)"
      and r: "scan_execs broker symb ref ttype price snap (s2, b2) = Inr ((s1, b1), o2)"
      by (auto split: sum.splits)
    have sub: "set (execs_at b2 r) \<subseteq> set (execs_at b r)" for r
      using fire_exec_Inr(2) [OF f] set_delete_subset [of oid "execs_at b ref"]
      by (cases "r = ref") simp_all
    have "set (execs_at b1 r) \<subseteq> set (execs_at b r)" for r
      using Cons.IH [OF r] sub [of r] by blast
    then show ?thesis
      using Cons.IH [OF r] fire_exec_Inr(3-6) [OF f] by simp
  qed
qed

section \<open>The trigger loop: an order id fires once\<close>

lemma fire_exec_shape:
  assumes "fire_exec broker symb ref price oid cmd abs_diff_away book = Inr ((s1, b1), outs)"
  shows "(\<exists>c. outs = [Client c]) \<or> (\<exists>a c. outs = [Brokerd a, Client c])"
  using assms
  by (auto simp: fire_exec_def Let_def pop_execs_def split: if_splits)

lemma steps_potential:
  fixes pot :: "'s \<Rightarrow> nat"
  assumes step: "\<And>x s s1 outs. I s \<Longrightarrow> f x s = Inr (s1, outs)
                   \<Longrightarrow> I s1 \<and> sum_list (map w outs) + pot s1 \<le> pot s"
    and "I s"
    and "steps f xs s = Inr (s1, outs)"
  shows "I s1 \<and> sum_list (map w outs) + pot s1 \<le> pot s"
  using assms(2,3)
proof (induction xs arbitrary: s outs)
  case Nil
  then show ?case by simp
next
  case (Cons x xs)
  from Cons.prems(2) obtain s2 o1 o2 where
    a: "f x s = Inr (s2, o1)" and b: "steps f xs s2 = Inr (s1, o2)" and c: "outs = o1 @ o2"
    by (auto split: sum.splits)
  from step [OF Cons.prems(1) a] have i2: "I s2" and p2: "sum_list (map w o1) + pot s2 \<le> pot s"
    by simp_all
  from Cons.IH [OF i2 b] have "I s1" and "sum_list (map w o2) + pot s1 \<le> pot s2"
    by simp_all
  with p2 c show ?case by simp
qed

lemma shrink_only_at:
  assumes "\<forall>r. set (execs_at b1 r) \<subseteq> set (execs_at b r)" and "only_at oid ref0 b"
  shows "only_at oid ref0 b1"
  using assms unfolding only_at_def by blast

lemma shrink_holds_oid:
  assumes "\<forall>r. set (execs_at b1 r) \<subseteq> set (execs_at b r)"
  shows "holds_oid oid ref0 b1 \<le> holds_oid oid ref0 b"
  using assms unfolding holds_oid_def by auto

lemma scan_execs_once:
  assumes W1: "\<And>m. out_oid m \<noteq> Some oid \<Longrightarrow> w m = 0"
    and W2: "\<And>a c. w (Brokerd a) + w (Client c) \<le> K"
    and I: "only_at oid ref0 b"
    and run: "scan_execs broker symb ref ttype price snap (s, b) = Inr ((s1, b1), outs)"
  shows "sum_list (map w outs) + K * holds_oid oid ref0 b1 \<le> K * holds_oid oid ref0 b"
  using I run
proof (induction snap arbitrary: s b outs)
  case Nil
  then show ?case by simp
next
  case (Cons x snap)
  obtain oid1 pred tf cmd pa ada where x: "x = (oid1, pred, tf, cmd, pa, ada)"
    by (cases x) auto
  show ?case
  proof (cases "case pred of None \<Rightarrow> True | Some p \<Rightarrow> ttype \<notin> set tf \<or> \<not> run_check p price")
    case True
    with Cons x show ?thesis by simp
  next
    case False
    with Cons.prems(2) x obtain s2 b2 o1 o2 where
      f: "fire_exec broker symb ref price oid1 cmd ada b = Inr ((s2, b2), o1)"
      and r: "scan_execs broker symb ref ttype price snap (s2, b2) = Inr ((s1, b1), o2)"
      and o: "outs = o1 @ o2"
      by (auto split: sum.splits)
    have sub: "\<forall>r. set (execs_at b2 r) \<subseteq> set (execs_at b r)"
    proof
      fix r show "set (execs_at b2 r) \<subseteq> set (execs_at b r)"
        using fire_exec_Inr(2) [OF f] set_delete_subset [of oid1 "execs_at b ref"]
        by (cases "r = ref") simp_all
    qed
    have i2: "only_at oid ref0 b2"
      using shrink_only_at [OF sub Cons.prems(1)] .
    have ih: "sum_list (map w o2) + K * holds_oid oid ref0 b1 \<le> K * holds_oid oid ref0 b2"
      using Cons.IH [OF i2 r] .
    have wc: "w (Client c) \<le> K" for c
      using W2 [of undefined c] by simp
    have wk: "sum_list (map w o1) \<le> K"
      using fire_exec_shape [OF f] W2 wc by auto
    have e: "sum_list (map w outs) = sum_list (map w o1) + sum_list (map w o2)"
      using o by simp
    show ?thesis
    proof (cases "oid1 = oid")
      case True
      have "oid \<in> fst ` set (execs_at b ref)"
        using fire_exec_Inr(1) [OF f] True by simp
      with Cons.prems(1) have rr: "ref = ref0" and h: "holds_oid oid ref0 b = 1"
        by (auto simp: only_at_def holds_oid_def)
      have "oid \<notin> fst ` set (execs_at b2 ref0)"
        using fire_exec_Inr(2) [OF f] True rr by (simp add: keys_delete)
      then have p2: "K * holds_oid oid ref0 b2 = 0"
        by (simp add: holds_oid_def)
      have pb: "K * holds_oid oid ref0 b = K"
        using h by simp
      show ?thesis
        using ih wk e p2 pb by linarith
    next
      case False
      have "sum_list (map w o1) = 0"
        using fire_exec_Inr(8) [OF f] False W1 by simp
      moreover have "K * holds_oid oid ref0 b2 \<le> K * holds_oid oid ref0 b"
        using shrink_holds_oid [OF sub] by simp
      ultimately show ?thesis using ih e by linarith
    qed
  qed
qed

lemma tick_step_once:
  assumes W1: "\<And>m. out_oid m \<noteq> Some oid \<Longrightarrow> w m = 0"
    and W2: "\<And>a c. w (Brokerd a) + w (Client c) \<le> K"
    and I: "only_at oid ref0 (snd st)"
    and run: "tick_step broker symb ref tick st = Inr (st1, outs)"
  shows "only_at oid ref0 (snd st1)
       \<and> sum_list (map w outs) + K * holds_oid oid ref0 (snd st1) \<le> K * holds_oid oid ref0 (snd st)"
proof -
  obtain symbol book where st: "st = (symbol, book)"
    by (cases st)
  define book1 where "book1 = book\<lparr>lasts := (lasts book)((broker, symbol) \<mapsto> tick_price tick)\<rparr>"
  from run st obtain s2 b2 where
    sc: "scan_execs broker symb ref (tick_type tick) (tick_price tick) (execs_at book1 ref)
           (symbol, book1) = Inr ((s2, b2), outs)"
    and e1: "execs_at (snd st1) = execs_at b2"
    by (auto simp: tick_step_def Let_def book1_def split: sum.splits if_splits)
  have i1: "only_at oid ref0 book1"
    using I st by (simp add: only_at_def book1_def)
  have h1: "holds_oid oid ref0 book1 = holds_oid oid ref0 book"
    by (simp add: holds_oid_def book1_def)
  have "only_at oid ref0 b2"
    using scan_execs_shrinks [OF sc] shrink_only_at i1 by blast
  moreover have "sum_list (map w outs) + K * holds_oid oid ref0 b2 \<le> K * holds_oid oid ref0 book1"
    using scan_execs_once [OF W1 W2 i1 sc] by simp
  ultimately show ?thesis
    using e1 h1 st by (simp add: only_at_def holds_oid_def)
qed

lemma quote_step_once:
  assumes W1: "\<And>m. out_oid m \<noteq> Some oid \<Longrightarrow> w m = 0"
    and W2: "\<And>a c. w (Brokerd a) + w (Client c) \<le> K"
    and I: "only_at oid ref0 (snd st)"
    and run: "quote_step broker item st = Inr (st1, outs)"
  shows "only_at oid ref0 (snd st1)
       \<and> sum_list (map w outs) + K * holds_oid oid ref0 (snd st1) \<le> K * holds_oid oid ref0 (snd st)"
proof -
  obtain symb quote where item: "item = (symb, quote)"
    by (cases item)
  show ?thesis
  proof (cases "orders (snd st) symb")
    case None
    with run item I show ?thesis by (simp add: quote_step_def)
  next
    case (Some ref)
    with run item have
      "steps (tick_step broker symb ref) (iterticks quote [''ask'', ''bid'', ''trade'', ''last'']) st
         = Inr (st1, outs)"
      by (simp add: quote_step_def)
    from steps_potential [where I = "\<lambda>s. only_at oid ref0 (snd s)"
        and pot = "\<lambda>s. K * holds_oid oid ref0 (snd s)" and w = w, OF _ I this]
      tick_step_once [OF W1 W2]
    show ?thesis by blast
  qed
qed

lemma clear_dark_triggers_once:
  assumes W1: "\<And>m. out_oid m \<noteq> Some oid \<Longrightarrow> w m = 0"
    and W2: "\<And>a c. w (Brokerd a) + w (Client c) \<le> K"
    and I: "only_at oid ref0 (snd st)"
    and run: "clear_dark_triggers broker quote_stream st = Inr (st1, outs)"
  shows "only_at oid ref0 (snd st1)
       \<and> sum_list (map w outs) + K * holds_oid oid ref0 (snd st1) \<le> K * holds_oid oid ref0 (snd st)"
proof -
  have inner: "only_at oid ref0 (snd s1)
       \<and> sum_list (map w os) + K * holds_oid oid ref0 (snd s1) \<le> K * holds_oid oid ref0 (snd s)"
    if "only_at oid ref0 (snd s)" and "steps (quote_step broker) quotes s = Inr (s1, os)"
    for quotes s s1 os
    using steps_potential [where I = "\<lambda>s. only_at oid ref0 (snd s)"
        and pot = "\<lambda>s. K * holds_oid oid ref0 (snd s)" and w = w, OF _ that]
      quote_step_once [OF W1 W2]
    by blast
  from steps_potential [where I = "\<lambda>s. only_at oid ref0 (snd s)"
        and pot = "\<lambda>s. K * holds_oid oid ref0 (snd s)" and w = w
        and f = "\<lambda>quotes. steps (quote_step broker) quotes", OF _ I]
    run inner
  show ?thesis unfolding clear_dark_triggers_def by blast
qed

lemma count_as_weight:
  "length (filter p outs) = sum_list (map (\<lambda>m. if p m then 1 else 0) outs)"
  by (induction outs) simp_all

lemma status_for_oid: "status_for oid m \<Longrightarrow> out_oid m = Some oid"
  by (cases "(oid, m)" rule: status_for.cases) simp_all

lemma order_for_oid: "order_for oid m \<Longrightarrow> out_oid m = Some oid"
  by (cases "(oid, m)" rule: order_for.cases) simp_all

text \<open>
  C2: a registered dark order or alert fires at most once. When \<open>oid\<close> is held by
  one dict of the book only and some run of the trigger loop sends its triggered
  \<open>Status\<close>, then that run sends exactly one \<open>Status\<close> and at most one
  \<open>BrokerdOrder\<close> for it, the entry is in no dict of \<open>orders\<close> afterwards, and no
  later quote, whatever its ticks, produces a message for that \<open>oid\<close>.
\<close>

theorem fires_at_most_once:
  assumes only: "only_at oid ref (snd st)"
    and run1: "clear_dark_triggers broker quote_stream st = Inr (st1, outs1)"
    and fired: "\<exists>m \<in> set outs1. status_for oid m"
    and run2: "clear_dark_triggers broker later_quotes st1 = Inr (st2, outs2)"
  shows "(\<forall>r. oid \<notin> fst ` set (execs_at (snd st1) r))
       \<and> (\<forall>m \<in> set outs2. out_oid m \<noteq> Some oid)
       \<and> length (filter (status_for oid) outs1) = 1
       \<and> length (filter (order_for oid) outs1) \<le> 1"
proof -
  let ?ws = "\<lambda>m. if status_for oid m then 1 else (0::nat)"
  let ?wo = "\<lambda>m. if order_for oid m then 1 else (0::nat)"
  let ?wm = "\<lambda>m. if out_oid m = Some oid then 1 else (0::nat)"
  have ws1: "?ws m = 0" if "out_oid m \<noteq> Some oid" for m
    using that status_for_oid [of oid m] by auto
  have ws2: "?ws (Brokerd a) + ?ws (Client c) \<le> 1" for a c
    by simp
  have wo1: "?wo m = 0" if "out_oid m \<noteq> Some oid" for m
    using that order_for_oid [of oid m] by auto
  have wo2: "?wo (Brokerd a) + ?wo (Client c) \<le> 1" for a c
    by simp
  have wm1: "?wm m = 0" if "out_oid m \<noteq> Some oid" for m
    using that by simp
  have wm2: "?wm (Brokerd a) + ?wm (Client c) \<le> 2" for a c
    by simp
  note a1 = clear_dark_triggers_once [where w = ?ws and K = 1, OF ws1 ws2 only run1]
  have s1: "only_at oid ref (snd st1)"
    using a1 by blast
  have ps: "sum_list (map ?ws outs1) + holds_oid oid ref (snd st1) \<le> holds_oid oid ref (snd st)"
    using a1 by simp
  have po: "sum_list (map ?wo outs1) + holds_oid oid ref (snd st1) \<le> holds_oid oid ref (snd st)"
    using clear_dark_triggers_once [where w = ?wo and K = 1, OF wo1 wo2 only run1] by simp
  have pm: "sum_list (map ?wm outs2) + 2 * holds_oid oid ref (snd st2) \<le> 2 * holds_oid oid ref (snd st1)"
    using clear_dark_triggers_once [where w = ?wm and K = 2, OF wm1 wm2 s1 run2] by simp
  have le1: "holds_oid oid ref (snd st) \<le> 1"
    by (simp add: holds_oid_def)
  have pos: "1 \<le> length (filter (status_for oid) outs1)"
  proof -
    from fired have "filter (status_for oid) outs1 \<noteq> []"
      by (auto simp: filter_empty_conv)
    then show ?thesis
      by (simp add: Suc_le_eq)
  qed
  have cs: "length (filter (status_for oid) outs1) = 1" and h0: "holds_oid oid ref (snd st1) = 0"
    using ps le1 pos unfolding count_as_weight [of "status_for oid"] by linarith+
  have co: "length (filter (order_for oid) outs1) \<le> 1"
    using po le1 unfolding count_as_weight [of "order_for oid"] by linarith
  have gone: "\<forall>r. oid \<notin> fst ` set (execs_at (snd st1) r)"
    using h0 s1 unfolding holds_oid_def only_at_def by (metis zero_neq_one)
  have "sum_list (map ?wm outs2) = 0"
    using pm h0 by linarith
  then have quiet: "\<forall>m \<in> set outs2. out_oid m \<noteq> Some oid"
    by (auto simp: sum_list_eq_0_iff split: if_splits)
  show ?thesis
    using gone quiet cs co by blast
qed

lemmas eval_defs = clear_dark_triggers_def quote_step_def tick_step_def fire_exec_def
  iterticks_def pop_execs_def book_with_alert_def register_exec_def dark_entry_def
  mk_check_def seeded_book_def alert_o3_def trade_quote_def triggered_status_def Let_def

section \<open>The trigger loop: a matching dark order is submitted\<close>













text \<open>The theorem on an alert at 100 with trade ticks at 100.5 and then 101.\<close>

theorem fires_at_most_once_witness:
  "only_at ''o3'' 0 book_with_alert
   \<and> clear_dark_triggers ''ib'' [[(''aapl'', trade_quote 100.5)]] (''aapl'', book_with_alert)
       = Inr ((''aapl'', alert_fired_book),
              [Client (Status_msg
                 (triggered_status ''o3'' ''alert_triggered'' ''aapl'' 100.5 ''ib'' alert_o3))])
   \<and> clear_dark_triggers ''ib'' [[(''aapl'', trade_quote 101)]] (''aapl'', alert_fired_book)
       = Inr ((''aapl'', alert_fired_book\<lparr>lasts := [(''ib'', ''aapl'') \<mapsto> 101]\<rparr>), [])
   \<and> (\<forall>r. ''o3'' \<notin> fst ` set (execs_at alert_fired_book r))"
proof -
  have only: "only_at ''o3'' 0 (snd (''aapl'', book_with_alert))"
    by (simp add: only_at_def book_with_alert_def register_exec_def seeded_book_def)
  have run1: "clear_dark_triggers ''ib'' [[(''aapl'', trade_quote 100.5)]] (''aapl'', book_with_alert)
       = Inr ((''aapl'', alert_fired_book),
              [Client (Status_msg
                 (triggered_status ''o3'' ''alert_triggered'' ''aapl'' 100.5 ''ib'' alert_o3))])"
    by (simp add: eval_defs alert_fired_book_def)
  have fired: "\<exists>m \<in> set [Client (Status_msg
                 (triggered_status ''o3'' ''alert_triggered'' ''aapl'' 100.5 ''ib'' alert_o3))].
                 status_for ''o3'' m"
    by (simp add: triggered_status_def)
  have run2: "clear_dark_triggers ''ib'' [[(''aapl'', trade_quote 101)]] (''aapl'', alert_fired_book)
       = Inr ((''aapl'', alert_fired_book\<lparr>lasts := [(''ib'', ''aapl'') \<mapsto> 101]\<rparr>), [])"
    by (simp add: eval_defs alert_fired_book_def)
  from fires_at_most_once [OF only run1 fired run2] only run1 run2
  show ?thesis by simp
qed

section \<open>The trigger loop: \<open>lasts\<close>\<close>

lemma tick_step_lasts:
  assumes "tick_step broker symb ref tick (symbol, book) = Inr ((s1, b1), outs)"
  shows "lasts b1 = (lasts book)((broker, symbol) \<mapsto> tick_price tick)"
proof -
  define b0 where "b0 = book\<lparr>lasts := (lasts book)((broker, symbol) \<mapsto> tick_price tick)\<rparr>"
  from assms obtain s2 b2 where
    sc: "scan_execs broker symb ref (tick_type tick) (tick_price tick) (execs_at b0 ref)
           (symbol, b0) = Inr ((s2, b2), outs)"
    and l: "lasts b1 = lasts b2"
    by (auto simp: tick_step_def Let_def b0_def split: sum.splits if_splits)
  from scan_execs_shrinks [OF sc] l show ?thesis
    by (simp add: b0_def)
qed

text \<open>
  \<open>lasts\<close> follows the ticks of a quote only when \<open>book.orders\<close> has a dict for the
  quote's symbol. Then the price of the quote's last tick of type ask, bid, trade or
  last is stored under \<open>(broker, symbol)\<close>, where \<open>symbol\<close> is the value of the loop's
  variable when that tick is reached; a quote for a symbol without a dict leaves
  \<open>lasts\<close> as it was.
\<close>

lemma lasts_follow_ticks:
  assumes "quote_step broker (symb, quote) (symbol, book) = Inr ((s2, b2), outs)"
  shows "(orders book symb = None \<longrightarrow> lasts b2 = lasts book)
       \<and> (\<forall>ref pre tick s1 b1 o1.
             orders book symb = Some ref
           \<and> iterticks quote [''ask'', ''bid'', ''trade'', ''last''] = pre @ [tick]
           \<and> steps (tick_step broker symb ref) pre (symbol, book) = Inr ((s1, b1), o1)
           \<longrightarrow> lasts b2 (broker, s1) = Some (tick_price tick))"
proof (intro conjI allI impI)
  assume "orders book symb = None"
  with assms show "lasts b2 = lasts book"
    by (simp add: quote_step_def)
next
  fix ref pre tick s1 b1 o1
  assume a: "orders book symb = Some ref
           \<and> iterticks quote [''ask'', ''bid'', ''trade'', ''last''] = pre @ [tick]
           \<and> steps (tick_step broker symb ref) pre (symbol, book) = Inr ((s1, b1), o1)"
  with assms have "steps (tick_step broker symb ref) (pre @ [tick]) (symbol, book)
                     = Inr ((s2, b2), outs)"
    by (simp add: quote_step_def)
  with a obtain o2 where "tick_step broker symb ref tick (s1, b1) = Inr ((s2, b2), o2)"
    by (auto simp: steps_append split: sum.splits)
  from tick_step_lasts [OF this] show "lasts b2 (broker, s1) = Some (tick_price tick)"
    by simp
qed

lemma lasts_follow_ticks_example:
  "quote_step ''ib'' (''aapl'', trade_quote 100.5) (''aapl'', book_with_alert)
     = Inr ((''aapl'', alert_fired_book),
            [Client (Status_msg
               (triggered_status ''o3'' ''alert_triggered'' ''aapl'' 100.5 ''ib'' alert_o3))])
   \<and> orders book_with_alert ''aapl'' = Some 0
   \<and> lasts alert_fired_book (''ib'', ''aapl'') = Some 100.5"
proof -
  have run: "quote_step ''ib'' (''aapl'', trade_quote 100.5) (''aapl'', book_with_alert)
     = Inr ((''aapl'', alert_fired_book),
            [Client (Status_msg
               (triggered_status ''o3'' ''alert_triggered'' ''aapl'' 100.5 ''ib'' alert_o3))])"
    by (simp add: eval_defs alert_fired_book_def)
  have ord: "orders book_with_alert ''aapl'' = Some 0"
    by (simp add: book_with_alert_def register_exec_def seeded_book_def)
  have tk: "iterticks (trade_quote 100.5) [''ask'', ''bid'', ''trade'', ''last'']
              = [] @ [\<lparr>tick_type = ''trade'', tick_price = 100.5\<rparr>]"
    by (simp add: iterticks_def trade_quote_def)
  have pre: "steps (tick_step ''ib'' ''aapl'' 0) [] (''aapl'', book_with_alert)
               = Inr ((''aapl'', book_with_alert), [])"
    by simp
  from lasts_follow_ticks [OF run] ord tk pre run
  show ?thesis by fastforce
qed

text \<open>
  C7: every ask, bid, trade or last tick of a processed quote should set
  \<open>lasts[(broker, symbol)]\<close> to its price (the comment at the assignment:
  "update to keep new cmds informed"). The loop skips a quote whose symbol has no
  dict in \<open>book.orders\<close> before it reaches the assignment: in a session where no dark
  order was registered yet, a trade tick at 151 leaves \<open>lasts[(ib, aapl)]\<close> at the
  seeded 150.
\<close>

theorem lasts_not_updated_without_orders:
  "clear_dark_triggers ''ib'' [[(''aapl'', trade_quote 151)]] (''aapl'', seeded_book ''ib'' ''aapl'' 150)
     = Inr ((''aapl'', seeded_book ''ib'' ''aapl'' 150), [])
   \<and> lasts (seeded_book ''ib'' ''aapl'' 150) (''ib'', ''aapl'') = Some 150
   \<and> lasts (seeded_book ''ib'' ''aapl'' 150) (''ib'', ''aapl'') \<noteq> Some 151"
  by (simp add: clear_dark_triggers_def quote_step_def seeded_book_def)

section \<open>The command processor: dark submissions and cancels\<close>




lemmas translate_defs = translate_and_relay_brokerd_event_def relay_event_def ack_event_def
  relay_status_def inverse_get_def bidict_put_def Let_def

lemmas cmd_defs = process_client_order_cmd_def submit_cmd_def cancel_cmd_def inverse_get_def
  register_exec_def dark_entry_def mk_check_def plain_status_def Let_def

section \<open>The translator: status events and the book\<close>

text \<open>The book after a live buy \<open>o5\<close> and its ack with \<open>reqid\<close> 42.\<close>

lemma acked_book_reached:
  "process_client_order_cmd ''aapl'' feed_aapl live_buy_o5 (None, seeded_book ''ib'' ''aapl'' 150)
     = Inr ((Some (BrokerdOrder_msg
               \<lparr>bo_action = ''buy'', bo_oid = ''o5'', bo_reqid = None, bo_symbol = ''aapl'',
                bo_price = 149, bo_size = 10\<rparr>),
             (seeded_book ''ib'' ''aapl'' 150)
               \<lparr>ems_entries := [''o5'' \<mapsto> BrokerdOrder_msg
                  \<lparr>bo_action = ''buy'', bo_oid = ''o5'', bo_reqid = None, bo_symbol = ''aapl'',
                   bo_price = 149, bo_size = 10\<rparr>]\<rparr>),
            [Brokerd (BrokerdOrder_msg
               \<lparr>bo_action = ''buy'', bo_oid = ''o5'', bo_reqid = None, bo_symbol = ''aapl'',
                bo_price = 149, bo_size = 10\<rparr>)])
   \<and> translate_and_relay_brokerd_event ''ib'' ack_event_o5
       ((seeded_book ''ib'' ''aapl'' 150)
          \<lparr>ems_entries := [''o5'' \<mapsto> BrokerdOrder_msg
             \<lparr>bo_action = ''buy'', bo_oid = ''o5'', bo_reqid = None, bo_symbol = ''aapl'',
              bo_price = 149, bo_size = 10\<rparr>]\<rparr>)
     = Inr (acked_book, [])"
  by (simp add: cmd_defs translate_defs live_buy_o5_def ack_event_o5_def acked_book_def
      seeded_book_def feed_aapl_def)




text \<open>
  C6, as the code has it: no step of a cancel round trip or of an execution removes
  the order from the book. Every broker event other than an ack, a terminal
  \<open>cancelled\<close> or \<open>filled\<close> status included, leaves the whole book as it was, and so
  does a client cancel for an order with an \<open>ems_entries\<close> record: the
  \<open>ems_entries\<close> record and the \<open>ems2brokerd_ids\<close> entry created on the ack stay.
\<close>

theorem terminal_status_keeps_book:
  assumes "ev_name brokerd_msg \<noteq> ''ack''"
    and "translate_and_relay_brokerd_event broker brokerd_msg book = Inr (book1, outs)"
    and "cmd_action cmd = ''cancel''"
    and "ems_entries book (cmd_oid cmd) = Some entry"
    and "process_client_order_cmd symbol feed_symbols cmd (msg, book) = Inr ((msg2, book2), outs2)"
  shows "book1 = book \<and> book2 = book"
proof -
  have "book1 = book"
    using assms(1,2)
    by (auto simp: translate_and_relay_brokerd_event_def Let_def
        split: if_splits option.splits sum.splits)
  moreover have "book2 = book"
    using assms(3,4,5)
    by (auto simp: process_client_order_cmd_def cancel_cmd_def Let_def
        split: if_splits option.splits sum.splits)
  ultimately show ?thesis by simp
qed

text \<open>The theorem on the cancel round trip of the acked order \<open>o5\<close>.\<close>

theorem terminal_status_keeps_book_witness:
  "translate_and_relay_brokerd_event ''ib'' (status_event (ReqInt 42) ''cancelled'' 0 10) acked_book
     = Inr (acked_book,
            [Client (Status_msg
               (relay_status ''o5'' (Some ''broker_cancelled'') (ReqInt 42)
                  (event_details (status_event (ReqInt 42) ''cancelled'' 0 10))))])
   \<and> process_client_order_cmd ''aapl'' feed_aapl cancel_o5 (None, acked_book)
     = Inr ((Some (BrokerdCancel_msg \<lparr>bc_oid = ''o5'', bc_reqid = Some (ReqInt 42)\<rparr>), acked_book),
            [Brokerd (BrokerdCancel_msg \<lparr>bc_oid = ''o5'', bc_reqid = Some (ReqInt 42)\<rparr>)])"
proof -
  let ?ev = "status_event (ReqInt 42) ''cancelled'' 0 10"
  have h1: "ev_name ?ev \<noteq> ''ack''"
    by (simp add: status_event_def)
  have h2: "translate_and_relay_brokerd_event ''ib'' ?ev acked_book
     = Inr ((seeded_book ''ib'' ''aapl'' 150)
       \<lparr>ems_entries := [''o5'' \<mapsto> BrokerdOrderAck_msg \<lparr>ack_reqid = ReqInt 42, ack_oid = ''o5''\<rparr>],
        ems2brokerd_ids := [(''o5'', ReqInt 42)]\<rparr>,
            [Client (Status_msg
               (relay_status ''o5'' (Some ''broker_cancelled'') (ReqInt 42) (event_details ?ev)))])"
    by (simp add: translate_defs status_event_def acked_book_def seeded_book_def)
  have h3: "cmd_action cancel_o5 = ''cancel''"
    by (simp add: cancel_o5_def)
  have h4: "ems_entries acked_book (cmd_oid cancel_o5)
              = Some (BrokerdOrderAck_msg \<lparr>ack_reqid = ReqInt 42, ack_oid = ''o5''\<rparr>)"
    by (simp add: cancel_o5_def acked_book_def)
  have h5: "process_client_order_cmd ''aapl'' feed_aapl cancel_o5 (None, acked_book)
     = Inr ((Some (BrokerdCancel_msg \<lparr>bc_oid = ''o5'', bc_reqid = Some (ReqInt 42)\<rparr>),
            (seeded_book ''ib'' ''aapl'' 150)
       \<lparr>ems_entries := [''o5'' \<mapsto> BrokerdOrderAck_msg \<lparr>ack_reqid = ReqInt 42, ack_oid = ''o5''\<rparr>],
        ems2brokerd_ids := [(''o5'', ReqInt 42)]\<rparr>),
            [Brokerd (BrokerdCancel_msg \<lparr>bc_oid = ''o5'', bc_reqid = Some (ReqInt 42)\<rparr>)])"
    by (simp add: cmd_defs cancel_o5_def acked_book_def seeded_book_def)
  from terminal_status_keeps_book [OF h1 h2 h3 h4 h5] h2 h5
  show ?thesis by simp
qed

text \<open>
  C6 as stated fails: after \<open>broker_executed\<close> is relayed for the acked order \<open>o5\<close>,
  the order is still in \<open>ems_entries\<close> and in \<open>ems2brokerd_ids\<close>.
\<close>

theorem executed_order_stays_in_book:
  "translate_and_relay_brokerd_event ''ib'' (status_event (ReqInt 42) ''filled'' 10 0) acked_book
     = Inr (acked_book,
            [Client (Status_msg
               (relay_status ''o5'' (Some ''broker_executed'') (ReqInt 42)
                  (event_details (status_event (ReqInt 42) ''filled'' 10 0))))])
   \<and> ems_entries acked_book ''o5''
       = Some (BrokerdOrderAck_msg \<lparr>ack_reqid = ReqInt 42, ack_oid = ''o5''\<rparr>)
   \<and> map_of (ems2brokerd_ids acked_book) ''o5'' = Some (ReqInt 42)"
  by (simp add: translate_defs status_event_def acked_book_def seeded_book_def)

text \<open>
  C3: a cancel that arrives before the ack should be buffered as a \<open>BrokerdCancel\<close>
  in \<open>ems_entries[oid]\<close> and sent once the ack brings the \<open>reqid\<close>. The live submit
  has already stored its \<open>BrokerdOrder\<close> in \<open>ems_entries[oid]\<close>, so the cancel takes the
  branch for a live entry and is sent to the broker at once, with \<open>reqid = None\<close>. The
  branch meant for the buffering stores the variable \<open>msg\<close>, which it never binds: as
  the first command of a session the cancel raises \<open>UnboundLocalError\<close>.
\<close>

theorem cancel_before_ack_not_buffered:
  "process_client_order_cmds ''aapl'' feed_aapl [live_sell_o2, cancel_o2]
       (None, seeded_book ''ib'' ''aapl'' 150)
     = Inr ((Some (BrokerdCancel_msg \<lparr>bc_oid = ''o2'', bc_reqid = None\<rparr>),
             (seeded_book ''ib'' ''aapl'' 150)
               \<lparr>ems_entries := [''o2'' \<mapsto> BrokerdOrder_msg sell_order_o2]\<rparr>),
            [Brokerd (BrokerdOrder_msg sell_order_o2),
             Brokerd (BrokerdCancel_msg \<lparr>bc_oid = ''o2'', bc_reqid = None\<rparr>)])
   \<and> process_client_order_cmd ''aapl'' feed_aapl cancel_o2 (None, seeded_book ''ib'' ''aapl'' 150)
     = Inl UnboundLocalError"
  by (simp add: process_client_order_cmds_def cmd_defs live_sell_o2_def cancel_o2_def
      sell_order_o2_def seeded_book_def feed_aapl_def)

section \<open>The Kraken reader: the watchdog count\<close>

lemma recv_iter_count:
  assumes "recv_iter r (c, m) = Inr ((n, m1), ys)"
  shows "n = c + (if r = Timeout then 1 else 0)" and "n \<le> 2 \<or> r \<noteq> Timeout"
  using assms
  by (auto simp: recv_iter_def Let_def split: if_splits option.splits sum.splits recv_result.splits)

lemma handle_msg_not_closed: "handle_msg m \<noteq> Inl ConnectionClosed"
  by (cases m) (auto split: option.splits list.splits)

lemma recv_iter_closed:
  "recv_iter r (c, m) = Inl ConnectionClosed \<longleftrightarrow> r = Timeout \<and> c \<ge> 2"
  using handle_msg_not_closed
  by (auto simp: recv_iter_def Let_def split: option.splits sum.splits recv_result.splits)

lemma recv_steps_count:
  assumes "steps recv_iter rs (c, m) = Inr ((n, m1), ys)" and "c \<le> 2"
  shows "n = c + length (filter (\<lambda>r. r = Timeout) rs) \<and> n \<le> 2"
  using assms
proof (induction rs arbitrary: c m ys)
  case Nil
  then show ?case by simp
next
  case (Cons r rs)
  from Cons.prems(1) obtain c1 m2 y1 y2 where
    a: "recv_iter r (c, m) = Inr ((c1, m2), y1)"
    and b: "steps recv_iter rs (c1, m2) = Inr ((n, m1), y2)"
    by (auto split: sum.splits)
  have c1: "c1 = c + (if r = Timeout then 1 else 0)" and le: "c1 \<le> 2"
    using recv_iter_count [OF a] Cons.prems(2) by auto
  from Cons.IH [OF b le] c1 show ?case by auto
qed

text \<open>
  C9, as the code has it: each \<open>recv()\<close> is bounded by \<open>move_on_after(1.5)\<close>, and
  \<open>too_slow_count\<close> counts every timeout since the reader started; a received
  message does not reset it. While the reader is running, the next receive raises
  the connection-closed error exactly when it times out and two timeouts have
  happened before, consecutive or not.
\<close>

theorem reconnect_on_third_timeout:
  assumes "recv_msg rs = Inr ((n, m), ys)"
  shows "recv_msg (rs @ [r]) = Inl ConnectionClosed
           \<longleftrightarrow> r = Timeout \<and> length (filter (\<lambda>x. x = Timeout) rs) = 2"
proof -
  have n: "n = length (filter (\<lambda>x. x = Timeout) rs)" and le: "n \<le> 2"
    using recv_steps_count [of rs 0 None n m ys] assms by (simp_all add: recv_msg_def)
  have "recv_msg (rs @ [r]) = Inl ConnectionClosed \<longleftrightarrow> recv_iter r (n, m) = Inl ConnectionClosed"
    using assms by (auto simp: recv_msg_def steps_append split: sum.splits)
  with n le show ?thesis
    by (auto simp: recv_iter_closed)
qed

text \<open>The theorem on a heartbeat followed by three timeouts.\<close>

theorem reconnect_on_third_timeout_witness:
  "recv_msg [Received heartbeat, Timeout, Timeout] = Inr ((2, Some heartbeat), [])
   \<and> recv_msg ([Received heartbeat, Timeout, Timeout] @ [Timeout]) = Inl ConnectionClosed"
proof -
  have h: "recv_msg [Received heartbeat, Timeout, Timeout] = Inr ((2, Some heartbeat), [])"
    by (simp add: recv_msg_def recv_iter_def heartbeat_def Let_def)
  from reconnect_on_third_timeout [OF h, of Timeout] h show ?thesis
    by simp
qed

text \<open>
  C9 as stated fails: with a heartbeat received before each of three timeouts, no
  two timeouts are consecutive and a message arrives before the third, yet the
  third raises the connection-closed error.
\<close>

theorem reconnect_without_consecutive_timeouts:
  "recv_msg [Received heartbeat, Timeout, Received heartbeat, Timeout, Received heartbeat, Timeout]
     = Inl ConnectionClosed"
  by (simp add: recv_msg_def recv_iter_def heartbeat_def Let_def)

section \<open>The feeds bus: two subscribers\<close>

lemma lower_examples: "lower ''XBTUSD'' = ''xbtusd''" "lower ''xbtusd'' = ''xbtusd''"
  by (simp_all add: lower_def lower_char_def)

lemma attach_locked_result:
  assumes "attach_locked backend symbol entry (bus, runs) = Inr ((bus1, runs1), res)"
  shows "feeds bus1 symbol = Some res"
    and "entry \<noteq> None \<longrightarrow> bus1 = bus \<and> runs1 = runs"
    and "runs1 \<le> Suc runs"
  using assms
  by (auto simp: attach_locked_def split: option.splits sum.splits prod.splits)

text \<open>
  Two calls in turn share one feed: the second finds the entry the first one left,
  does not run \<open>allocate_persistent_feed\<close>, and returns what the first returned.
\<close>

lemma attaches_in_turn_share_feed:
  assumes "two_attaches_in_turn backend symbol (bus, runs) = Inr ((bus2, runs2), (first, second))"
  shows "second = first \<and> runs2 \<le> Suc runs"
proof -
  from assms obtain bus1 runs1 where
    a: "attach_feed_bus backend symbol (bus, runs) = Inr ((bus1, runs1), first)"
    and b: "attach_feed_bus backend symbol (bus1, runs1) = Inr ((bus2, runs2), second)"
    by (auto simp: two_attaches_in_turn_def split: sum.splits)
  from a have f: "feeds bus1 symbol = Some first" and r: "runs1 \<le> Suc runs"
    using attach_locked_result(1,3)
    by (auto simp: attach_feed_bus_def split: prod.splits)
  have l: "fst (attach_lookup symbol bus1) = Some first"
    and k: "feeds (snd (attach_lookup symbol bus1)) = feeds bus1"
    using f by (auto simp: attach_lookup_def split: option.splits)
  from b obtain busx where
    c: "attach_locked backend symbol (Some first) (busx, runs1) = Inr ((bus2, runs2), second)"
    and x: "feeds busx = feeds bus1"
    using l k by (cases "attach_lookup symbol bus1") (auto simp: attach_feed_bus_def)
  from attach_locked_result(1,2) [OF c] x f r show ?thesis
    by auto
qed

text \<open>
  C8: of two subscribers attaching to the same symbol only the first should run
  \<open>allocate_persistent_feed\<close>, and the second should receive the cached \<open>init_msg\<close>
  and first quote; the lock \<open>bus.task_lock\<close> is there to serialise the allocation.
  \<open>entry\<close> is read before the lock is taken. When the second call starts while the
  first is still allocating, it has read \<open>entry = None\<close> and allocates again once it
  gets the lock: two runs, the entry of \<open>bus.feeds\<close> is replaced, and the second
  subscriber's first quote (101) is not the one the first subscriber got (100).
\<close>

theorem overlapping_attaches_allocate_twice:
  "two_attaches_overlapping (numbered_backend ''xbtusd'') ''xbtusd'' (empty_bus ''kraken'', 0)
     = Inr ((\<lparr>bus_brokername = ''kraken'',
              feeds = [''xbtusd'' \<mapsto>
                ([''xbtusd'' \<mapsto> \<lparr>fi_symbol_info = ''info'', fi_shm_token = Some ''kraken.xbtusd'',
                                  fi_sample_rate = Some 60\<rparr>],
                 \<lparr>quote_ticks = [\<lparr>tick_type = ''last'', tick_price = 101\<rparr>]\<rparr>)],
              subscribers = [''xbtusd'' \<mapsto> []]\<rparr>,
             2),
            (([''xbtusd'' \<mapsto> \<lparr>fi_symbol_info = ''info'', fi_shm_token = Some ''kraken.xbtusd'',
                                fi_sample_rate = Some 60\<rparr>],
              \<lparr>quote_ticks = [\<lparr>tick_type = ''last'', tick_price = 100\<rparr>]\<rparr>),
             ([''xbtusd'' \<mapsto> \<lparr>fi_symbol_info = ''info'', fi_shm_token = Some ''kraken.xbtusd'',
                                fi_sample_rate = Some 60\<rparr>],
              \<lparr>quote_ticks = [\<lparr>tick_type = ''last'', tick_price = 101\<rparr>]\<rparr>)))"
  by (simp add: two_attaches_overlapping_def attach_lookup_def attach_locked_def
      allocate_persistent_feed_def numbered_backend_def empty_bus_def lower_def lower_char_def
      Let_def numeral_2_eq_2)

text \<open>
  \<open>bus.feeds\<close> is written under \<open>symbol.lower()\<close> and read under \<open>symbol\<close>: a call
  with a symbol that is not in lower case allocates and then fails at
  \<open>bus.feeds[symbol]\<close>. (\<open>open_feed\<close> lowers the symbol before it calls.)
\<close>

lemma attach_upper_case_symbol:
  "attach_feed_bus (numbered_backend ''XBTUSD'') ''XBTUSD'' (empty_bus ''kraken'', 0) = Inl KeyError"
  by (simp add: attach_feed_bus_def attach_lookup_def attach_locked_def
      allocate_persistent_feed_def numbered_backend_def empty_bus_def lower_def lower_char_def
      Let_def)

lemma attaches_in_turn_example:
  "two_attaches_in_turn (numbered_backend ''xbtusd'') ''xbtusd'' (empty_bus ''kraken'', 0)
     = Inr ((\<lparr>bus_brokername = ''kraken'',
              feeds = [''xbtusd'' \<mapsto>
                ([''xbtusd'' \<mapsto> \<lparr>fi_symbol_info = ''info'', fi_shm_token = Some ''kraken.xbtusd'',
                                  fi_sample_rate = Some 60\<rparr>],
                 \<lparr>quote_ticks = [\<lparr>tick_type = ''last'', tick_price = 100\<rparr>]\<rparr>)],
              subscribers = [''xbtusd'' \<mapsto> []]\<rparr>,
             1),
            (([''xbtusd'' \<mapsto> \<lparr>fi_symbol_info = ''info'', fi_shm_token = Some ''kraken.xbtusd'',
                                fi_sample_rate = Some 60\<rparr>],
              \<lparr>quote_ticks = [\<lparr>tick_type = ''last'', tick_price = 100\<rparr>]\<rparr>),
             ([''xbtusd'' \<mapsto> \<lparr>fi_symbol_info = ''info'', fi_shm_token = Some ''kraken.xbtusd'',
                                fi_sample_rate = Some 60\<rparr>],
              \<lparr>quote_ticks = [\<lparr>tick_type = ''last'', tick_price = 100\<rparr>]\<rparr>)))"
  by (simp add: two_attaches_in_turn_def attach_feed_bus_def attach_lookup_def attach_locked_def
      allocate_persistent_feed_def numbered_backend_def empty_bus_def lower_def lower_char_def
      Let_def)

end
